theory Spec2Isabelle
  imports Main
begin

section \<open>JavaScript values\<close>

text \<open>
  The search parameters of \<^verbatim>\<open>record-provider.ts\<close> are an open bag
  \<^verbatim>\<open>{[key: string]: any}\<close>, and the provider tests the values it reads with
  JavaScript's truthiness and \<^verbatim>\<open>typeof\<close>. Numbers are the integers (block heights and
  amounts) and \<open>NaN\<close>, the one number besides zero that is falsy; \<open>JObject\<close> stands for
  any object or array.
\<close>

datatype number = Num int | NaN

datatype jsval =
    JUndefined
  | JNull
  | JBool bool
  | JNumber number
  | JString string
  | JObject

fun truthy :: "jsval \<Rightarrow> bool" where
  "truthy JUndefined = False"
| "truthy JNull = False"
| "truthy (JBool b) = b"
| "truthy (JNumber (Num n)) = (n \<noteq> 0)"
| "truthy (JNumber NaN) = False"
| "truthy (JString s) = (s \<noteq> [])"
| "truthy JObject = True"

fun js_typeof :: "jsval \<Rightarrow> string" where
  "js_typeof JUndefined = ''undefined''"
| "js_typeof JNull = ''object''"
| "js_typeof (JBool b) = ''boolean''"
| "js_typeof (JNumber n) = ''number''"
| "js_typeof (JString s) = ''string''"
| "js_typeof JObject = ''object''"

text \<open>\<^verbatim>\<open>interface RecordSearchParams { [key: string]: any }\<close>: reading a key the object
  does not have gives \<^verbatim>\<open>undefined\<close>.\<close>

type_synonym RecordSearchParams = "string \<Rightarrow> jsval option"

definition getProp :: "RecordSearchParams \<Rightarrow> string \<Rightarrow> jsval" where
  "getProp searchParameters k =
     (case searchParameters k of None \<Rightarrow> JUndefined | Some v \<Rightarrow> v)"

section \<open>Errors, thrown values and promises\<close>

text \<open>
  An \<^verbatim>\<open>Error\<close> object is its message. An \<^verbatim>\<open>async\<close> function never throws to its
  caller: a \<^verbatim>\<open>throw\<close> in its body rejects the promise it returned, and \<^verbatim>\<open>await\<close> of a
  rejected promise throws the same value again. The provider throws a string
  (\<^verbatim>\<open>throw "Unable to get current block height"\<close>) and an Error object
  (\<^verbatim>\<open>throw new Error("Method not implemented.")\<close>).
\<close>

datatype error = Error string

datatype thrown = ThrownString string | ThrownError error

datatype 'a promise = Resolved 'a | Rejected thrown

section \<open>Collaborators\<close>

text \<open>
  \<^verbatim>\<open>RecordPlaintext\<close>, \<^verbatim>\<open>Account\<close> and \<^verbatim>\<open>AleoNetworkClient\<close> are imported by
  \<^verbatim>\<open>record-provider.ts\<close> and are not defined in it. A record is what the provider's
  documentation reads of it (its nonce) and its amount; an account is its private key;
  the network client is a parameter: two operations over a remote state \<open>'s\<close> that the
  provider cannot see, each of which may resolve to a value, resolve to an Error, or
  reject.
\<close>

record RecordPlaintext =
  nonce :: string
  microcredits :: int

record Account =
  privateKey :: string

record 's AleoNetworkClient =
  getLatestHeight :: "'s \<Rightarrow> (error + number) promise \<times> 's"
  findUnspentRecords ::
    "jsval \<Rightarrow> jsval \<Rightarrow> string \<Rightarrow> int list \<Rightarrow> jsval \<Rightarrow> string list option \<Rightarrow> 's
       \<Rightarrow> (error + RecordPlaintext list) promise \<times> 's"

text \<open>
  What a call does that its caller can observe besides its result: the requests sent to
  the network client, with their arguments, and the lines written with
  \<^verbatim>\<open>console.error\<close> (the message only).
\<close>

datatype event =
    GetLatestHeight
  | FindUnspentRecords jsval jsval string "int list" jsval "string list option"
  | ConsoleError string

record 's world =
  remote :: 's
  trace :: "event list"

definition await_getLatestHeight ::
  "'s AleoNetworkClient \<Rightarrow> 's world \<Rightarrow> (error + number) promise \<times> 's world" where
  "await_getLatestHeight client w =
     (case getLatestHeight client (remote w) of
        (r, s) \<Rightarrow> (r, \<lparr>remote = s, trace = trace w @ [GetLatestHeight]\<rparr>))"

definition await_findUnspentRecords ::
  "'s AleoNetworkClient \<Rightarrow> jsval \<Rightarrow> jsval \<Rightarrow> string \<Rightarrow> int list \<Rightarrow> jsval \<Rightarrow> string list option
     \<Rightarrow> 's world \<Rightarrow> (error + RecordPlaintext list) promise \<times> 's world" where
  "await_findUnspentRecords client startHeight endHeight key amounts filt nonces w =
     (case findUnspentRecords client startHeight endHeight key amounts filt nonces (remote w) of
        (r, s) \<Rightarrow>
          (r, \<lparr>remote = s,
               trace = trace w @ [FindUnspentRecords startHeight endHeight key amounts filt nonces]\<rparr>))"

definition console_error :: "string \<Rightarrow> 's world \<Rightarrow> 's world" where
  "console_error msg w = w\<lparr>trace := trace w @ [ConsoleError msg]\<rparr>"

section \<open>NetworkRecordProvider\<close>

record 's NetworkRecordProvider =
  account :: Account
  networkClient :: "'s AleoNetworkClient"


text \<open>
  \<^verbatim>\<open>findCreditsRecords\<close>, lines 179 to 201. The optional arguments \<^verbatim>\<open>nonces\<close> and
  \<^verbatim>\<open>searchParameters\<close> are \<open>None\<close> when the caller leaves them out. The first \<open>case\<close>
  is the block of lines 180 to 198, which ends with the two heights or with the
  \<^verbatim>\<open>throw\<close> of line 194; the second is the \<^verbatim>\<open>return await\<close> of line 200.
\<close>

definition findCreditsRecords ::
  "'s NetworkRecordProvider \<Rightarrow> int list \<Rightarrow> bool \<Rightarrow> string list option \<Rightarrow> RecordSearchParams option
     \<Rightarrow> 's world \<Rightarrow> (error + RecordPlaintext list) promise \<times> 's world" where
  "findCreditsRecords this creditAmounts unspent nonces searchParameters w =
     (case
        (case searchParameters of
           None \<Rightarrow> (Resolved (JNumber (Num 0), JNumber (Num 0)), w)
         | Some sp \<Rightarrow>
             (let startHeight =
                    (if truthy (getProp sp ''startHeight'')
                        \<and> js_typeof (getProp sp ''endHeight'') = ''number''
                     then getProp sp ''startHeight'' else JNumber (Num 0))
              in
                if truthy (getProp sp ''endHeight'')
                   \<and> js_typeof (getProp sp ''endHeight'') = ''number''
                then (Resolved (startHeight, getProp sp ''endHeight''), w)
                else
                  (case await_getLatestHeight (networkClient this) w of
                     (Rejected x, w1) \<Rightarrow> (Rejected x, w1)
                   | (Resolved (Inl e), w1) \<Rightarrow>
                       (Rejected (ThrownString ''Unable to get current block height''),
                        console_error ''Error getting latest height'' w1)
                   | (Resolved (Inr end_height), w1) \<Rightarrow>
                       (Resolved (startHeight, JNumber end_height), w1))))
      of
        (Rejected x, w2) \<Rightarrow> (Rejected x, w2)
      | (Resolved (startHeight, endHeight), w2) \<Rightarrow>
          await_findUnspentRecords (networkClient this) startHeight endHeight
            (privateKey (account this)) creditAmounts JUndefined nonces w2)"

text \<open>\<^verbatim>\<open>findCreditsRecord\<close>, lines 212 to 219.\<close>

definition findCreditsRecord ::
  "'s NetworkRecordProvider \<Rightarrow> int \<Rightarrow> bool \<Rightarrow> string list option \<Rightarrow> RecordSearchParams option
     \<Rightarrow> 's world \<Rightarrow> (error + RecordPlaintext) promise \<times> 's world" where
  "findCreditsRecord this creditAmount unspent nonces searchParameters w =
     (case findCreditsRecords this [creditAmount] unspent nonces searchParameters w of
        (Rejected x, w1) \<Rightarrow> (Rejected x, w1)
      | (Resolved records, w1) \<Rightarrow>
          (if (case records of Inl e \<Rightarrow> False | Inr rs \<Rightarrow> length rs > 0)
           then (Resolved (Inr (projr records ! 0)), w1)
           else (Resolved (Inl (Error ''Record not found'')),
                 console_error ''Record not found with error:'' w1)))"

text \<open>\<^verbatim>\<open>findRecord\<close> and \<^verbatim>\<open>findRecords\<close>, lines 224 to 233.\<close>

definition findRecord ::
  "'s NetworkRecordProvider \<Rightarrow> bool \<Rightarrow> string list option \<Rightarrow> RecordSearchParams option
     \<Rightarrow> 's world \<Rightarrow> (error + RecordPlaintext) promise \<times> 's world" where
  "findRecord this unspent nonces searchParameters w =
     (Rejected (ThrownError (Error ''Method not implemented.'')), w)"

definition findRecords ::
  "'s NetworkRecordProvider \<Rightarrow> bool \<Rightarrow> string list option \<Rightarrow> RecordSearchParams option
     \<Rightarrow> 's world \<Rightarrow> (error + RecordPlaintext list) promise \<times> 's world" where
  "findRecords this unspent nonces searchParameters w =
     (Rejected (ThrownError (Error ''Method not implemented.'')), w)"

section \<open>Reading the height window off the search parameters\<close>

text \<open>
  Three readings of lines 180 to 190 that the statements below use. \<open>lookupPerformed\<close>
  says when the \<^verbatim>\<open>else\<close> branch of line 190 runs: the parameters are there (line 183)
  and the test of line 188 fails. \<open>startHeightUsed\<close> is the value of the variable
  \<^verbatim>\<open>startHeight\<close> at line 200: the initial 0 of line 180 unless the assignment of line
  185 ran. \<open>endHeightGiven\<close> is the value of \<^verbatim>\<open>endHeight\<close> at line 200 when the
  \<^verbatim>\<open>else\<close> branch did not run: the initial 0 of line 181 without parameters, the
  assignment of line 189 with them.
\<close>

definition lookupPerformed :: "RecordSearchParams option \<Rightarrow> bool" where
  "lookupPerformed searchParameters =
     (case searchParameters of
        None \<Rightarrow> False
      | Some sp \<Rightarrow>
          \<not> (truthy (getProp sp ''endHeight'') \<and> js_typeof (getProp sp ''endHeight'') = ''number''))"

definition startHeightUsed :: "RecordSearchParams option \<Rightarrow> jsval" where
  "startHeightUsed searchParameters =
     (case searchParameters of
        None \<Rightarrow> JNumber (Num 0)
      | Some sp \<Rightarrow>
          if truthy (getProp sp ''startHeight'') \<and> js_typeof (getProp sp ''endHeight'') = ''number''
          then getProp sp ''startHeight'' else JNumber (Num 0))"

definition endHeightGiven :: "RecordSearchParams option \<Rightarrow> jsval" where
  "endHeightGiven searchParameters =
     (case searchParameters of None \<Rightarrow> JNumber (Num 0) | Some sp \<Rightarrow> getProp sp ''endHeight'')"

text \<open>The events a call added to the trace, the queries among them, and the private
  keys those queries carried.\<close>

definition issued :: "'s world \<Rightarrow> 's world \<Rightarrow> event list" where
  "issued w w' = drop (length (trace w)) (trace w')"

fun isQuery :: "event \<Rightarrow> bool" where
  "isQuery (FindUnspentRecords startHeight endHeight key amounts filt nonces) = True"
| "isQuery GetLatestHeight = False"
| "isQuery (ConsoleError msg) = False"


text \<open>The nonces a caller excludes; leaving the argument out excludes none.\<close>

definition excluded :: "string list option \<Rightarrow> string set" where
  "excluded nonces = (case nonces of None \<Rightarrow> {} | Some ns \<Rightarrow> set ns)"

section \<open>Network clients for the examples\<close>

text \<open>
  \<open>tipClient tip held\<close> answers every height request with \<open>tip\<close> and every query with
  the records of \<open>held\<close> whose nonce is not excluded. \<open>downClient\<close> answers every height
  request with an Error. \<open>flakyClient held\<close> has a remote state that says whether the
  network is up: while it is up, it answers as \<open>tipClient 100 held\<close> does; while it is
  not, every request is rejected.
\<close>

definition tipClient :: "int \<Rightarrow> RecordPlaintext list \<Rightarrow> unit AleoNetworkClient" where
  "tipClient tip held =
     \<lparr>getLatestHeight = (\<lambda>s. (Resolved (Inr (Num tip)), s)),
      findUnspentRecords = (\<lambda>startHeight endHeight key amounts filt nonces s.
        (Resolved (Inr (filter (\<lambda>r. nonce r \<notin> excluded nonces) held)), s))\<rparr>"

definition downClient :: "unit AleoNetworkClient" where
  "downClient =
     \<lparr>getLatestHeight = (\<lambda>s. (Resolved (Inl (Error ''fetch failed'')), s)),
      findUnspentRecords = (\<lambda>startHeight endHeight key amounts filt nonces s.
        (Resolved (Inr []), s))\<rparr>"

definition flakyClient :: "RecordPlaintext list \<Rightarrow> bool AleoNetworkClient" where
  "flakyClient held =
     \<lparr>getLatestHeight = (\<lambda>up.
        if up then (Resolved (Inr (Num 100)), up)
        else (Rejected (ThrownError (Error ''fetch failed'')), up)),
      findUnspentRecords = (\<lambda>startHeight endHeight key amounts filt nonces up.
        if up then (Resolved (Inr (filter (\<lambda>r. nonce r \<notin> excluded nonces) held)), up)
        else (Rejected (ThrownError (Error ''fetch failed'')), up))\<rparr>"

definition alice :: Account where
  "alice = \<lparr>privateKey = ''APrivateKey1alice''\<rparr>"


definition credits5000 :: RecordPlaintext where
  "credits5000 = \<lparr>nonce = ''nonce1'', microcredits = 5000\<rparr>"

definition world0 :: "unit world" where
  "world0 = \<lparr>remote = (), trace = []\<rparr>"

section \<open>The four ways a batch search can run\<close>

lemma findCreditsRecords_no_lookup:
  assumes "\<not> lookupPerformed searchParameters"
    and "findUnspentRecords (networkClient this) (startHeightUsed searchParameters)
           (endHeightGiven searchParameters) (privateKey (account this)) creditAmounts JUndefined
           nonces (remote w) = (r, s)"
  shows "findCreditsRecords this creditAmounts unspent nonces searchParameters w =
           (r, \<lparr>remote = s, trace = trace w @
              [FindUnspentRecords (startHeightUsed searchParameters)
                 (endHeightGiven searchParameters) (privateKey (account this)) creditAmounts
                 JUndefined nonces]\<rparr>)"
  using assms
  by (auto simp: findCreditsRecords_def lookupPerformed_def startHeightUsed_def
      endHeightGiven_def await_findUnspentRecords_def Let_def split: option.splits)

lemma findCreditsRecords_lookup_rejected:
  assumes "lookupPerformed searchParameters"
    and "getLatestHeight (networkClient this) (remote w) = (Rejected x, s)"
  shows "findCreditsRecords this creditAmounts unspent nonces searchParameters w =
           (Rejected x, \<lparr>remote = s, trace = trace w @ [GetLatestHeight]\<rparr>)"
  using assms
  by (auto simp: findCreditsRecords_def lookupPerformed_def await_getLatestHeight_def Let_def
      split: option.splits)

lemma findCreditsRecords_lookup_error:
  assumes "lookupPerformed searchParameters"
    and "getLatestHeight (networkClient this) (remote w) = (Resolved (Inl e), s)"
  shows "findCreditsRecords this creditAmounts unspent nonces searchParameters w =
           (Rejected (ThrownString ''Unable to get current block height''),
            \<lparr>remote = s,
             trace = trace w @ [GetLatestHeight, ConsoleError ''Error getting latest height'']\<rparr>)"
  using assms
  by (auto simp: findCreditsRecords_def lookupPerformed_def await_getLatestHeight_def Let_def
      console_error_def split: option.splits)

lemma findCreditsRecords_lookup_ok:
  assumes "lookupPerformed searchParameters"
    and "getLatestHeight (networkClient this) (remote w) = (Resolved (Inr h), s1)"
    and "findUnspentRecords (networkClient this) (startHeightUsed searchParameters)
           (JNumber h) (privateKey (account this)) creditAmounts JUndefined nonces s1 = (r, s2)"
  shows "findCreditsRecords this creditAmounts unspent nonces searchParameters w =
           (r, \<lparr>remote = s2, trace = trace w @
              [GetLatestHeight,
               FindUnspentRecords (startHeightUsed searchParameters) (JNumber h)
                 (privateKey (account this)) creditAmounts JUndefined nonces]\<rparr>)"
  using assms
  by (auto simp: findCreditsRecords_def lookupPerformed_def startHeightUsed_def
      await_getLatestHeight_def await_findUnspentRecords_def Let_def split: option.splits)

lemma findCreditsRecords_trace:
  "\<exists>a b evs.
     trace (snd (findCreditsRecords this creditAmounts unspent nonces searchParameters w))
       = trace w @ evs
     \<and> evs \<in> {[FindUnspentRecords a b (privateKey (account this)) creditAmounts JUndefined nonces],
        [GetLatestHeight],
        [GetLatestHeight, ConsoleError ''Error getting latest height''],
        [GetLatestHeight,
         FindUnspentRecords a b (privateKey (account this)) creditAmounts JUndefined nonces]}"
proof (cases "lookupPerformed searchParameters")
  case False
  obtain r s where "findUnspentRecords (networkClient this) (startHeightUsed searchParameters)
           (endHeightGiven searchParameters) (privateKey (account this)) creditAmounts JUndefined
           nonces (remote w) = (r, s)" by (meson surj_pair)
  from findCreditsRecords_no_lookup [OF False this] show ?thesis
    by fastforce
next
  case True
  obtain p s1 where g: "getLatestHeight (networkClient this) (remote w) = (p, s1)"
    by (meson surj_pair)
  show ?thesis
  proof (cases p)
    case (Rejected x)
    with g have "getLatestHeight (networkClient this) (remote w) = (Rejected x, s1)" by simp
    from findCreditsRecords_lookup_rejected [OF True this] show ?thesis
      by simp
  next
    case (Resolved v)
    show ?thesis
    proof (cases v)
      case (Inl e)
      with g Resolved
      have "getLatestHeight (networkClient this) (remote w) = (Resolved (Inl e), s1)" by simp
      from findCreditsRecords_lookup_error [OF True this] show ?thesis
        by simp
    next
      case (Inr h)
      obtain r s2 where "findUnspentRecords (networkClient this) (startHeightUsed searchParameters)
           (JNumber h) (privateKey (account this)) creditAmounts JUndefined nonces s1 = (r, s2)"
        by (meson surj_pair)
      moreover from g Resolved Inr
      have "getLatestHeight (networkClient this) (remote w) = (Resolved (Inr h), s1)" by simp
      ultimately show ?thesis
        using findCreditsRecords_lookup_ok [OF True]
        by fastforce
    qed
  qed
qed

lemma findCreditsRecords_resolved_by_client:
  assumes "fst (findCreditsRecords this creditAmounts unspent nonces searchParameters w) = Resolved v"
  shows "\<exists>a b s s'. findUnspentRecords (networkClient this) a b (privateKey (account this))
           creditAmounts JUndefined nonces s = (Resolved v, s')"
proof (cases "lookupPerformed searchParameters")
  case False
  obtain r s where q: "findUnspentRecords (networkClient this) (startHeightUsed searchParameters)
           (endHeightGiven searchParameters) (privateKey (account this)) creditAmounts JUndefined
           nonces (remote w) = (r, s)" by (meson surj_pair)
  from findCreditsRecords_no_lookup [OF False q] assms have "r = Resolved v"
    by simp
  with q show ?thesis by blast
next
  case True
  obtain p s1 where g: "getLatestHeight (networkClient this) (remote w) = (p, s1)"
    by (meson surj_pair)
  show ?thesis
  proof (cases p)
    case (Rejected x)
    with g have "getLatestHeight (networkClient this) (remote w) = (Rejected x, s1)" by simp
    from findCreditsRecords_lookup_rejected [OF True this] assms show ?thesis
      by simp
  next
    case (Resolved u)
    show ?thesis
    proof (cases u)
      case (Inl e)
      with g Resolved
      have "getLatestHeight (networkClient this) (remote w) = (Resolved (Inl e), s1)" by simp
      from findCreditsRecords_lookup_error [OF True this] assms show ?thesis
        by simp
    next
      case (Inr h)
      obtain r s2 where q: "findUnspentRecords (networkClient this)
           (startHeightUsed searchParameters) (JNumber h) (privateKey (account this))
           creditAmounts JUndefined nonces s1 = (r, s2)"
        by (meson surj_pair)
      from g Resolved Inr
      have "getLatestHeight (networkClient this) (remote w) = (Resolved (Inr h), s1)" by simp
      from findCreditsRecords_lookup_ok [OF True this q] assms have "r = Resolved v"
        by simp
      with q show ?thesis by blast
    qed
  qed
qed


lemma findCreditsRecord_unfold:
  "findCreditsRecord this creditAmount unspent nonces searchParameters w =
     (case findCreditsRecords this [creditAmount] unspent nonces searchParameters w of
        (Rejected x, w1) \<Rightarrow> (Rejected x, w1)
      | (Resolved (Inl e), w1) \<Rightarrow>
          (Resolved (Inl (Error ''Record not found'')),
           w1\<lparr>trace := trace w1 @ [ConsoleError ''Record not found with error:'']\<rparr>)
      | (Resolved (Inr []), w1) \<Rightarrow>
          (Resolved (Inl (Error ''Record not found'')),
           w1\<lparr>trace := trace w1 @ [ConsoleError ''Record not found with error:'']\<rparr>)
      | (Resolved (Inr (r # rs)), w1) \<Rightarrow> (Resolved (Inr r), w1))"
  by (simp add: findCreditsRecord_def console_error_def
      split: prod.splits promise.splits sum.splits list.splits)

lemma findCreditsRecord_issued:
  "\<exists>more.
     issued w (snd (findCreditsRecord this creditAmount unspent nonces searchParameters w))
       = issued w (snd (findCreditsRecords this [creditAmount] unspent nonces searchParameters w))
           @ more
     \<and> more \<in> {[], [ConsoleError ''Record not found with error:'']}"
proof -
  from findCreditsRecords_trace [of this "[creditAmount]" unspent nonces searchParameters w]
  obtain evs where
    t: "trace (snd (findCreditsRecords this [creditAmount] unspent nonces searchParameters w))
          = trace w @ evs"
    by blast
  then show ?thesis
    by (cases "findCreditsRecords this [creditAmount] unspent nonces searchParameters w")
      (auto simp: findCreditsRecord_unfold issued_def split: promise.splits sum.splits list.splits)
qed

section \<open>The claims\<close>

subsection \<open>C1: the chain-tip lookup\<close>

text \<open>
  C1 as stated fails twice. A call without search parameters supplies no numeric
  \<^verbatim>\<open>endHeight\<close>, and no height is requested: the query goes out with the window
  \<open>[0, 0]\<close>. A call with \<^verbatim>\<open>{endHeight: 0}\<close> supplies a numeric \<^verbatim>\<open>endHeight\<close>, and the
  height is requested all the same, since 0 is falsy in the test of line 188.
\<close>

theorem findCreditsRecords_lookup_counterexample:
  "lookupPerformed None = False
   \<and> issued world0
        (snd (findCreditsRecords \<lparr>account = alice, networkClient = tipClient 100 []\<rparr>
           [5000] True (Some []) None world0))
      = [FindUnspentRecords (JNumber (Num 0)) (JNumber (Num 0)) ''APrivateKey1alice'' [5000]
           JUndefined (Some [])]
   \<and> js_typeof (getProp [''endHeight'' \<mapsto> JNumber (Num 0)] ''endHeight'') = ''number''
   \<and> count_list
        (issued world0
           (snd (findCreditsRecords \<lparr>account = alice, networkClient = tipClient 100 []\<rparr>
              [5000] True (Some []) (Some [''endHeight'' \<mapsto> JNumber (Num 0)]) world0)))
        GetLatestHeight = 1"
  by (simp add: lookupPerformed_def findCreditsRecords_def await_findUnspentRecords_def
      await_getLatestHeight_def tipClient_def alice_def world0_def issued_def getProp_def)

text \<open>
  C1, amended: when the search parameters are present, a call of \<^verbatim>\<open>findCreditsRecords\<close>
  or \<^verbatim>\<open>findCreditsRecord\<close> whose \<^verbatim>\<open>endHeight\<close> is a number other than 0 and NaN never
  asks for the latest height and queries with that \<^verbatim>\<open>endHeight\<close>; every other call with
  search parameters asks for the latest height exactly once and, when the answer is a
  number, queries with it as \<^verbatim>\<open>endHeight\<close>.
\<close>

theorem findCreditsRecords_endHeight_with_parameters:
  "(if truthy (getProp sp ''endHeight'') \<and> js_typeof (getProp sp ''endHeight'') = ''number''
    then
      issued w (snd (findCreditsRecords this creditAmounts unspent nonces (Some sp) w))
        = [FindUnspentRecords (startHeightUsed (Some sp)) (getProp sp ''endHeight'')
             (privateKey (account this)) creditAmounts JUndefined nonces]
      \<and> count_list
          (issued w (snd (findCreditsRecord this creditAmount unspent nonces (Some sp) w)))
          GetLatestHeight = 0
      \<and> filter isQuery
          (issued w (snd (findCreditsRecord this creditAmount unspent nonces (Some sp) w)))
        = [FindUnspentRecords (startHeightUsed (Some sp)) (getProp sp ''endHeight'')
             (privateKey (account this)) [creditAmount] JUndefined nonces]
    else
      count_list
        (issued w (snd (findCreditsRecords this creditAmounts unspent nonces (Some sp) w)))
        GetLatestHeight = 1
      \<and> count_list
          (issued w (snd (findCreditsRecord this creditAmount unspent nonces (Some sp) w)))
          GetLatestHeight = 1
      \<and> (\<forall>h s. getLatestHeight (networkClient this) (remote w) = (Resolved (Inr h), s) \<longrightarrow>
             issued w (snd (findCreditsRecords this creditAmounts unspent nonces (Some sp) w))
               = [GetLatestHeight,
                  FindUnspentRecords (startHeightUsed (Some sp)) (JNumber h)
                    (privateKey (account this)) creditAmounts JUndefined nonces]
             \<and> filter isQuery
                 (issued w (snd (findCreditsRecord this creditAmount unspent nonces (Some sp) w)))
               = [FindUnspentRecords (startHeightUsed (Some sp)) (JNumber h)
                    (privateKey (account this)) [creditAmount] JUndefined nonces]))"
proof -
  obtain more where
    single: "issued w (snd (findCreditsRecord this creditAmount unspent nonces (Some sp) w))
       = issued w (snd (findCreditsRecords this [creditAmount] unspent nonces (Some sp) w)) @ more"
    and more: "more \<in> {[], [ConsoleError ''Record not found with error:'']}"
    using findCreditsRecord_issued [of w this creditAmount unspent nonces "Some sp"] by blast
  from more have quiet: "count_list more GetLatestHeight = 0" "filter isQuery more = []"
    by auto
  show ?thesis
  proof (cases "lookupPerformed (Some sp)")
    case False
    then have c: "truthy (getProp sp ''endHeight'')
        \<and> js_typeof (getProp sp ''endHeight'') = ''number''"
      by (simp add: lookupPerformed_def)
    have batch: "issued w (snd (findCreditsRecords this amounts unspent nonces (Some sp) w))
        = [FindUnspentRecords (startHeightUsed (Some sp)) (getProp sp ''endHeight'')
             (privateKey (account this)) amounts JUndefined nonces]" for amounts
    proof -
      obtain r s where "findUnspentRecords (networkClient this) (startHeightUsed (Some sp))
           (endHeightGiven (Some sp)) (privateKey (account this)) amounts JUndefined
           nonces (remote w) = (r, s)" by (meson surj_pair)
      from findCreditsRecords_no_lookup [OF False this, of unspent] show ?thesis
        by (simp add: issued_def endHeightGiven_def)
    qed
    show ?thesis
      by (subst if_P [OF c]) (simp add: batch single quiet)
  next
    case True
    then have c: "\<not> (truthy (getProp sp ''endHeight'')
        \<and> js_typeof (getProp sp ''endHeight'') = ''number'')"
      by (simp add: lookupPerformed_def)
    have once: "count_list
        (issued w (snd (findCreditsRecords this amounts unspent nonces (Some sp) w)))
        GetLatestHeight = 1" for amounts
    proof -
      obtain p s1 where g: "getLatestHeight (networkClient this) (remote w) = (p, s1)"
        by (meson surj_pair)
      show ?thesis
      proof (cases p)
        case (Rejected x)
        with g have "getLatestHeight (networkClient this) (remote w) = (Rejected x, s1)"
          by simp
        from findCreditsRecords_lookup_rejected [OF True this] show ?thesis
          by (simp add: issued_def)
      next
        case (Resolved v)
        show ?thesis
        proof (cases v)
          case (Inl e)
          with g Resolved
          have "getLatestHeight (networkClient this) (remote w) = (Resolved (Inl e), s1)"
            by simp
          from findCreditsRecords_lookup_error [OF True this] show ?thesis
            by (simp add: issued_def)
        next
          case (Inr h)
          obtain r s2 where q: "findUnspentRecords (networkClient this)
               (startHeightUsed (Some sp)) (JNumber h) (privateKey (account this))
               amounts JUndefined nonces s1 = (r, s2)"
            by (meson surj_pair)
          from g Resolved Inr
          have "getLatestHeight (networkClient this) (remote w) = (Resolved (Inr h), s1)"
            by simp
          from findCreditsRecords_lookup_ok [OF True this q] show ?thesis
            by (simp add: issued_def)
        qed
      qed
    qed
    have used: "issued w (snd (findCreditsRecords this amounts unspent nonces (Some sp) w))
                 = [GetLatestHeight,
                    FindUnspentRecords (startHeightUsed (Some sp)) (JNumber h)
                      (privateKey (account this)) amounts JUndefined nonces]"
      if g: "getLatestHeight (networkClient this) (remote w) = (Resolved (Inr h), s)"
      for h s amounts
    proof -
      obtain r s2 where q: "findUnspentRecords (networkClient this)
           (startHeightUsed (Some sp)) (JNumber h) (privateKey (account this))
           amounts JUndefined nonces s = (r, s2)"
        by (meson surj_pair)
      from findCreditsRecords_lookup_ok [OF True g q] show ?thesis
        by (simp add: issued_def)
    qed
    show ?thesis
      by (subst if_not_P [OF c]) (simp add: once used single quiet)
  qed
qed

theorem findCreditsRecords_endHeight_with_parameters_witness:
  "issued world0
     (snd (findCreditsRecords \<lparr>account = alice, networkClient = tipClient 100 []\<rparr>
        [5000] True (Some []) (Some [''endHeight'' \<mapsto> JNumber (Num 20)]) world0))
     = [FindUnspentRecords (JNumber (Num 0)) (JNumber (Num 20)) ''APrivateKey1alice'' [5000]
          JUndefined (Some [])]
   \<and> getLatestHeight (tipClient 100 []) () = (Resolved (Inr (Num 100)), ())
   \<and> issued world0
       (snd (findCreditsRecords \<lparr>account = alice, networkClient = tipClient 100 []\<rparr>
          [5000] True (Some []) (Some Map.empty) world0))
     = [GetLatestHeight,
        FindUnspentRecords (JNumber (Num 0)) (JNumber (Num 100)) ''APrivateKey1alice'' [5000]
          JUndefined (Some [])]
   \<and> filter isQuery
       (issued world0
          (snd (findCreditsRecord \<lparr>account = alice, networkClient = tipClient 100 []\<rparr>
             5000 True (Some []) (Some Map.empty) world0)))
     = [FindUnspentRecords (JNumber (Num 0)) (JNumber (Num 100)) ''APrivateKey1alice'' [5000]
          JUndefined (Some [])]"
  using
    findCreditsRecords_endHeight_with_parameters
      [of "[''endHeight'' \<mapsto> JNumber (Num 20)]" world0
          "\<lparr>account = alice, networkClient = tipClient 100 []\<rparr>" "[5000]" True "Some []"
          5000]
    findCreditsRecords_endHeight_with_parameters
      [of Map.empty world0
          "\<lparr>account = alice, networkClient = tipClient 100 []\<rparr>" "[5000]" True "Some []"
          5000]
  by (simp add: getProp_def startHeightUsed_def tipClient_def alice_def world0_def)

subsection \<open>C2: the start height\<close>

text \<open>
  C2 at two inputs where the code departs from it. With \<^verbatim>\<open>{startHeight: 10}\<close> and a chain
  tip of 100 the query is bounded to \<open>[0, 100]\<close>, not \<open>[10, 100]\<close>: the test of line 184
  asks for the type of \<^verbatim>\<open>endHeight\<close>, which is absent. With
  \<^verbatim>\<open>{startHeight: "abc", endHeight: 20}\<close> the string is sent as the start height. The
  scenario of the claim, \<^verbatim>\<open>{startHeight: 10, endHeight: 20}\<close>, gives the window \<open>[10, 20]\<close>
  and no lookup.
\<close>

theorem findCreditsRecords_startHeight_evaluated:
  "issued world0
     (snd (findCreditsRecords \<lparr>account = alice, networkClient = tipClient 100 []\<rparr>
        [5000] True (Some []) (Some [''startHeight'' \<mapsto> JNumber (Num 10)]) world0))
     = [GetLatestHeight,
        FindUnspentRecords (JNumber (Num 0)) (JNumber (Num 100)) ''APrivateKey1alice'' [5000]
          JUndefined (Some [])]
   \<and> issued world0
       (snd (findCreditsRecords \<lparr>account = alice, networkClient = tipClient 100 []\<rparr>
          [5000] True (Some [])
          (Some [''startHeight'' \<mapsto> JString ''abc'', ''endHeight'' \<mapsto> JNumber (Num 20)]) world0))
     = [FindUnspentRecords (JString ''abc'') (JNumber (Num 20)) ''APrivateKey1alice'' [5000]
          JUndefined (Some [])]
   \<and> issued world0
       (snd (findCreditsRecords \<lparr>account = alice, networkClient = tipClient 100 []\<rparr>
          [5000] True (Some [])
          (Some [''startHeight'' \<mapsto> JNumber (Num 10), ''endHeight'' \<mapsto> JNumber (Num 20)]) world0))
     = [FindUnspentRecords (JNumber (Num 10)) (JNumber (Num 20)) ''APrivateKey1alice'' [5000]
          JUndefined (Some [])]"
  by (simp add: findCreditsRecords_def await_findUnspentRecords_def
      await_getLatestHeight_def tipClient_def alice_def world0_def issued_def getProp_def)

subsection \<open>C3: how failures reach the caller\<close>

text \<open>
  C3 as stated fails: \<^verbatim>\<open>findRecord\<close> and \<^verbatim>\<open>findRecords\<close> reject on every call, and
  \<^verbatim>\<open>findCreditsRecords\<close> and \<^verbatim>\<open>findCreditsRecord\<close> reject when the chain-tip lookup
  returns an Error. None of the four returns an Error value there.
\<close>

theorem public_operations_reject_counterexample:
  "fst (findRecord \<lparr>account = alice, networkClient = tipClient 100 []\<rparr> True None None world0)
     = Rejected (ThrownError (Error ''Method not implemented.''))
   \<and> fst (findRecords \<lparr>account = alice, networkClient = tipClient 100 []\<rparr> True None None
        world0)
     = Rejected (ThrownError (Error ''Method not implemented.''))
   \<and> fst (findCreditsRecords \<lparr>account = alice, networkClient = downClient\<rparr> [5000] True
        (Some []) (Some Map.empty) world0)
     = Rejected (ThrownString ''Unable to get current block height'')
   \<and> fst (findCreditsRecord \<lparr>account = alice, networkClient = downClient\<rparr> 5000 True
        (Some []) (Some Map.empty) world0)
     = Rejected (ThrownString ''Unable to get current block height'')"
  by (simp add: findRecord_def findRecords_def findCreditsRecord_def findCreditsRecords_def
      await_getLatestHeight_def downClient_def console_error_def world0_def getProp_def)

text \<open>
  C3, amended: \<^verbatim>\<open>findRecord\<close> and \<^verbatim>\<open>findRecords\<close> always reject with the Error
  "Method not implemented."; \<^verbatim>\<open>findCreditsRecords\<close> and \<^verbatim>\<open>findCreditsRecord\<close> reject
  with the string "Unable to get current block height" when the chain-tip lookup is
  performed and returns an Error; in every other case, provided that no request which the
  call itself sends to the network client is rejected, \<^verbatim>\<open>findCreditsRecords\<close> resolves
  to what the network client answered its query with (records or an Error value) and
  \<^verbatim>\<open>findCreditsRecord\<close> resolves to the first of those records or to the Error
  "Record not found", so that a failure of theirs is an Error value. The requests a call
  sends are the lookup from the state it starts in, when a lookup is performed, and the
  query: from the state it starts in without a lookup, from the state the lookup left
  otherwise.
\<close>

theorem public_operations_failures:
  "findRecord this unspent nonces searchParameters w =
     (Rejected (ThrownError (Error ''Method not implemented.'')), w)
   \<and> findRecords this unspent nonces searchParameters w =
     (Rejected (ThrownError (Error ''Method not implemented.'')), w)
   \<and> (\<forall>e s. lookupPerformed searchParameters
          \<and> getLatestHeight (networkClient this) (remote w) = (Resolved (Inl e), s) \<longrightarrow>
        fst (findCreditsRecords this creditAmounts unspent nonces searchParameters w)
          = Rejected (ThrownString ''Unable to get current block height'')
        \<and> fst (findCreditsRecord this creditAmount unspent nonces searchParameters w)
          = Rejected (ThrownString ''Unable to get current block height''))
   \<and> (\<forall>v s. \<not> lookupPerformed searchParameters
          \<and> findUnspentRecords (networkClient this) (startHeightUsed searchParameters)
              (endHeightGiven searchParameters) (privateKey (account this)) creditAmounts
              JUndefined nonces (remote w) = (Resolved v, s) \<longrightarrow>
        fst (findCreditsRecords this creditAmounts unspent nonces searchParameters w)
          = Resolved v)
   \<and> (\<forall>h s1 v s. lookupPerformed searchParameters
          \<and> getLatestHeight (networkClient this) (remote w) = (Resolved (Inr h), s1)
          \<and> findUnspentRecords (networkClient this) (startHeightUsed searchParameters)
              (JNumber h) (privateKey (account this)) creditAmounts JUndefined nonces s1
              = (Resolved v, s) \<longrightarrow>
        fst (findCreditsRecords this creditAmounts unspent nonces searchParameters w)
          = Resolved v)
   \<and> (\<forall>v s. \<not> lookupPerformed searchParameters
          \<and> findUnspentRecords (networkClient this) (startHeightUsed searchParameters)
              (endHeightGiven searchParameters) (privateKey (account this)) [creditAmount]
              JUndefined nonces (remote w) = (Resolved v, s) \<longrightarrow>
        fst (findCreditsRecord this creditAmount unspent nonces searchParameters w)
          = Resolved (case v of
              Inl e \<Rightarrow> Inl (Error ''Record not found'')
            | Inr [] \<Rightarrow> Inl (Error ''Record not found'')
            | Inr (r # rs) \<Rightarrow> Inr r))
   \<and> (\<forall>h s1 v s. lookupPerformed searchParameters
          \<and> getLatestHeight (networkClient this) (remote w) = (Resolved (Inr h), s1)
          \<and> findUnspentRecords (networkClient this) (startHeightUsed searchParameters)
              (JNumber h) (privateKey (account this)) [creditAmount] JUndefined nonces s1
              = (Resolved v, s) \<longrightarrow>
        fst (findCreditsRecord this creditAmount unspent nonces searchParameters w)
          = Resolved (case v of
              Inl e \<Rightarrow> Inl (Error ''Record not found'')
            | Inr [] \<Rightarrow> Inl (Error ''Record not found'')
            | Inr (r # rs) \<Rightarrow> Inr r))"
proof -
  have single: "fst (findCreditsRecord this creditAmount unspent nonces searchParameters w)
      = (case p of
           Rejected x \<Rightarrow> Rejected x
         | Resolved v \<Rightarrow>
             Resolved (case v of
                 Inl e \<Rightarrow> Inl (Error ''Record not found'')
               | Inr [] \<Rightarrow> Inl (Error ''Record not found'')
               | Inr (r # rs) \<Rightarrow> Inr r))"
    if "fst (findCreditsRecords this [creditAmount] unspent nonces searchParameters w) = p"
    for p
    using that
    by (cases "findCreditsRecords this [creditAmount] unspent nonces searchParameters w")
      (simp add: findCreditsRecord_unfold split: promise.splits sum.splits list.splits)
  have failed: "fst (findCreditsRecords this amounts unspent nonces searchParameters w)
      = Rejected (ThrownString ''Unable to get current block height'')"
    if "lookupPerformed searchParameters"
      and "getLatestHeight (networkClient this) (remote w) = (Resolved (Inl e), s)"
    for amounts e s
    using findCreditsRecords_lookup_error [OF that] by simp
  have direct: "fst (findCreditsRecords this amounts unspent nonces searchParameters w)
      = Resolved v"
    if "\<not> lookupPerformed searchParameters"
      and "findUnspentRecords (networkClient this) (startHeightUsed searchParameters)
             (endHeightGiven searchParameters) (privateKey (account this)) amounts
             JUndefined nonces (remote w) = (Resolved v, s)"
    for amounts v s
    using findCreditsRecords_no_lookup [OF that] by simp
  have looked: "fst (findCreditsRecords this amounts unspent nonces searchParameters w)
      = Resolved v"
    if "lookupPerformed searchParameters"
      and "getLatestHeight (networkClient this) (remote w) = (Resolved (Inr h), s1)"
      and "findUnspentRecords (networkClient this) (startHeightUsed searchParameters)
             (JNumber h) (privateKey (account this)) amounts JUndefined nonces s1
             = (Resolved v, s)"
    for amounts h s1 v s
    using findCreditsRecords_lookup_ok [OF that] by simp
  show ?thesis
  proof (intro conjI allI impI)
    show "findRecord this unspent nonces searchParameters w =
        (Rejected (ThrownError (Error ''Method not implemented.'')), w)"
      by (simp add: findRecord_def)
    show "findRecords this unspent nonces searchParameters w =
        (Rejected (ThrownError (Error ''Method not implemented.'')), w)"
      by (simp add: findRecords_def)
  next
    fix e s
    assume a: "lookupPerformed searchParameters
      \<and> getLatestHeight (networkClient this) (remote w) = (Resolved (Inl e), s)"
    from a show "fst (findCreditsRecords this creditAmounts unspent nonces searchParameters w)
        = Rejected (ThrownString ''Unable to get current block height'')"
      using failed by blast
    from a have "fst (findCreditsRecords this [creditAmount] unspent nonces searchParameters w)
        = Rejected (ThrownString ''Unable to get current block height'')"
      using failed by blast
    from single [OF this]
    show "fst (findCreditsRecord this creditAmount unspent nonces searchParameters w)
        = Rejected (ThrownString ''Unable to get current block height'')"
      by simp
  next
    fix v s
    assume "\<not> lookupPerformed searchParameters
      \<and> findUnspentRecords (networkClient this) (startHeightUsed searchParameters)
          (endHeightGiven searchParameters) (privateKey (account this)) creditAmounts
          JUndefined nonces (remote w) = (Resolved v, s)"
    then show "fst (findCreditsRecords this creditAmounts unspent nonces searchParameters w)
        = Resolved v"
      using direct by blast
  next
    fix h s1 v s
    assume "lookupPerformed searchParameters
      \<and> getLatestHeight (networkClient this) (remote w) = (Resolved (Inr h), s1)
      \<and> findUnspentRecords (networkClient this) (startHeightUsed searchParameters)
          (JNumber h) (privateKey (account this)) creditAmounts JUndefined nonces s1
          = (Resolved v, s)"
    then show "fst (findCreditsRecords this creditAmounts unspent nonces searchParameters w)
        = Resolved v"
      using looked by blast
  next
    fix v s
    assume "\<not> lookupPerformed searchParameters
      \<and> findUnspentRecords (networkClient this) (startHeightUsed searchParameters)
          (endHeightGiven searchParameters) (privateKey (account this)) [creditAmount]
          JUndefined nonces (remote w) = (Resolved v, s)"
    then have "fst (findCreditsRecords this [creditAmount] unspent nonces searchParameters w)
        = Resolved v"
      using direct by blast
    from single [OF this]
    show "fst (findCreditsRecord this creditAmount unspent nonces searchParameters w)
        = Resolved (case v of
            Inl e \<Rightarrow> Inl (Error ''Record not found'')
          | Inr [] \<Rightarrow> Inl (Error ''Record not found'')
          | Inr (r # rs) \<Rightarrow> Inr r)"
      by simp
  next
    fix h s1 v s
    assume "lookupPerformed searchParameters
      \<and> getLatestHeight (networkClient this) (remote w) = (Resolved (Inr h), s1)
      \<and> findUnspentRecords (networkClient this) (startHeightUsed searchParameters)
          (JNumber h) (privateKey (account this)) [creditAmount] JUndefined nonces s1
          = (Resolved v, s)"
    then have "fst (findCreditsRecords this [creditAmount] unspent nonces searchParameters w)
        = Resolved v"
      using looked by blast
    from single [OF this]
    show "fst (findCreditsRecord this creditAmount unspent nonces searchParameters w)
        = Resolved (case v of
            Inl e \<Rightarrow> Inl (Error ''Record not found'')
          | Inr [] \<Rightarrow> Inl (Error ''Record not found'')
          | Inr (r # rs) \<Rightarrow> Inr r)"
      by simp
  qed
qed

text \<open>
  The amended C3 at a network client that does reject elsewhere: \<open>flakyClient\<close> rejects
  every request while the network is down, and the calls below, which start while it is
  up, resolve; with a nonce excluded the single search resolves to the Error
  "Record not found"; on \<open>downClient\<close> the lookup returns an Error and the call rejects.
\<close>

theorem public_operations_failures_witness:
  "fst (getLatestHeight (flakyClient [credits5000]) False)
     = Rejected (ThrownError (Error ''fetch failed''))
   \<and> lookupPerformed (Some Map.empty)
   \<and> getLatestHeight (flakyClient [credits5000]) True = (Resolved (Inr (Num 100)), True)
   \<and> findUnspentRecords (flakyClient [credits5000]) (JNumber (Num 0)) (JNumber (Num 100))
        ''APrivateKey1alice'' [5000] JUndefined None True
     = (Resolved (Inr [credits5000]), True)
   \<and> fst (findCreditsRecords \<lparr>account = alice, networkClient = flakyClient [credits5000]\<rparr>
        [5000] True None (Some Map.empty) \<lparr>remote = True, trace = []\<rparr>)
     = Resolved (Inr [credits5000])
   \<and> fst (findCreditsRecord \<lparr>account = alice, networkClient = flakyClient [credits5000]\<rparr>
        5000 True None (Some Map.empty) \<lparr>remote = True, trace = []\<rparr>)
     = Resolved (Inr credits5000)
   \<and> fst (findRecord \<lparr>account = alice, networkClient = flakyClient [credits5000]\<rparr> True None
        (Some Map.empty) \<lparr>remote = True, trace = []\<rparr>)
     = Rejected (ThrownError (Error ''Method not implemented.''))
   \<and> \<not> lookupPerformed None
   \<and> fst (findCreditsRecord \<lparr>account = alice, networkClient = tipClient 100 [credits5000]\<rparr>
        5000 True (Some [''nonce1'']) None world0)
     = Resolved (Inl (Error ''Record not found''))
   \<and> getLatestHeight downClient () = (Resolved (Inl (Error ''fetch failed'')), ())
   \<and> fst (findCreditsRecords \<lparr>account = alice, networkClient = downClient\<rparr> [5000] True
        None (Some Map.empty) world0)
     = Rejected (ThrownString ''Unable to get current block height'')"
proof -
  have l: "lookupPerformed (Some Map.empty)" and n: "\<not> lookupPerformed None"
    by (simp_all add: lookupPerformed_def getProp_def)
  have s0: "startHeightUsed (Some Map.empty) = JNumber (Num 0)"
    "startHeightUsed None = JNumber (Num 0)" "endHeightGiven None = JNumber (Num 0)"
    by (simp_all add: startHeightUsed_def endHeightGiven_def getProp_def)
  have g: "getLatestHeight (flakyClient [credits5000]) True = (Resolved (Inr (Num 100)), True)"
    by (simp add: flakyClient_def)
  have q: "findUnspentRecords (flakyClient [credits5000]) a b k am f None True
      = (Resolved (Inr [credits5000]), True)" for a b k am f
    by (simp add: flakyClient_def excluded_def)
  have q': "findUnspentRecords (tipClient 100 [credits5000]) a b k am f (Some [''nonce1'']) ()
      = (Resolved (Inr []), ())" for a b k am f
    by (simp add: tipClient_def excluded_def credits5000_def)
  have d: "getLatestHeight downClient () = (Resolved (Inl (Error ''fetch failed'')), ())"
    by (simp add: downClient_def)
  have r: "fst (getLatestHeight (flakyClient [credits5000]) False)
     = Rejected (ThrownError (Error ''fetch failed''))"
    by (simp add: flakyClient_def)
  note flaky = public_operations_failures
    [of "\<lparr>account = alice, networkClient = flakyClient [credits5000]\<rparr>" True None
        "Some Map.empty" "\<lparr>remote = True, trace = []\<rparr>" "[5000]" 5000]
  note tip = public_operations_failures
    [of "\<lparr>account = alice, networkClient = tipClient 100 [credits5000]\<rparr>" True
        "Some [''nonce1'']" None world0 "[5000]" 5000]
  note down = public_operations_failures
    [of "\<lparr>account = alice, networkClient = downClient\<rparr>" True None
        "Some Map.empty" world0 "[5000]" 5000]
  have batch: "fst (findCreditsRecords
        \<lparr>account = alice, networkClient = flakyClient [credits5000]\<rparr>
        [5000] True None (Some Map.empty) \<lparr>remote = True, trace = []\<rparr>)
     = Resolved (Inr [credits5000])"
    by (rule flaky [THEN conjunct2, THEN conjunct2, THEN conjunct2, THEN conjunct2,
          THEN conjunct1, rule_format, of "Num 100" True "Inr [credits5000]" True])
      (simp add: l g q s0 alice_def)
  have single: "fst (findCreditsRecord
        \<lparr>account = alice, networkClient = flakyClient [credits5000]\<rparr>
        5000 True None (Some Map.empty) \<lparr>remote = True, trace = []\<rparr>)
     = Resolved (Inr credits5000)"
    using flaky [THEN conjunct2, THEN conjunct2, THEN conjunct2, THEN conjunct2,
          THEN conjunct2, THEN conjunct2, rule_format,
          of "Num 100" True "Inr [credits5000]" True]
    by (simp add: l g q s0 alice_def)
  have unimplemented: "fst (findRecord
        \<lparr>account = alice, networkClient = flakyClient [credits5000]\<rparr> True None
        (Some Map.empty) \<lparr>remote = True, trace = []\<rparr>)
     = Rejected (ThrownError (Error ''Method not implemented.''))"
    using flaky [THEN conjunct1] by simp
  have missing: "fst (findCreditsRecord
        \<lparr>account = alice, networkClient = tipClient 100 [credits5000]\<rparr>
        5000 True (Some [''nonce1'']) None world0)
     = Resolved (Inl (Error ''Record not found''))"
    using tip [THEN conjunct2, THEN conjunct2, THEN conjunct2, THEN conjunct2,
          THEN conjunct2, THEN conjunct1, rule_format, of "Inr []" "()"]
    by (simp add: n q' s0 alice_def world0_def)
  have aborted: "fst (findCreditsRecords \<lparr>account = alice, networkClient = downClient\<rparr>
        [5000] True None (Some Map.empty) world0)
     = Rejected (ThrownString ''Unable to get current block height'')"
    using down [THEN conjunct2, THEN conjunct2, THEN conjunct1, rule_format,
          of "Error ''fetch failed''" "()"]
    by (simp add: l d world0_def)
  from r l g q [of "JNumber (Num 0)" "JNumber (Num 100)" "''APrivateKey1alice''" "[5000]"
      JUndefined] batch single unimplemented n missing d aborted
  show ?thesis
    by simp
qed

subsection \<open>C4: the delegated query\<close>

text \<open>
  C4: a call of \<^verbatim>\<open>findCreditsRecords\<close> reaches the query step when no chain-tip lookup
  is performed, or when the lookup resolves to a number. In both cases it sends exactly
  one query to the network client, with the start height and end height it resolved,
  the private key of the current account, the whole list of amounts, \<^verbatim>\<open>undefined\<close> as
  the fifth argument and the caller's nonces, and it returns what the network client
  answered (records, an Error or a rejection) unchanged.
\<close>

theorem findCreditsRecords_delegates_once:
  "(\<not> lookupPerformed searchParameters \<longrightarrow>
      findCreditsRecords this creditAmounts unspent nonces searchParameters w =
        (case findUnspentRecords (networkClient this) (startHeightUsed searchParameters)
                (endHeightGiven searchParameters) (privateKey (account this)) creditAmounts
                JUndefined nonces (remote w) of
           (r, s) \<Rightarrow>
             (r, \<lparr>remote = s, trace = trace w @
                [FindUnspentRecords (startHeightUsed searchParameters)
                   (endHeightGiven searchParameters) (privateKey (account this)) creditAmounts
                   JUndefined nonces]\<rparr>))
      \<and> length (filter isQuery
           (issued w
              (snd (findCreditsRecords this creditAmounts unspent nonces searchParameters w))))
         = 1)
   \<and> (\<forall>h s1. lookupPerformed searchParameters
          \<and> getLatestHeight (networkClient this) (remote w) = (Resolved (Inr h), s1) \<longrightarrow>
      findCreditsRecords this creditAmounts unspent nonces searchParameters w =
        (case findUnspentRecords (networkClient this) (startHeightUsed searchParameters)
                (JNumber h) (privateKey (account this)) creditAmounts JUndefined nonces s1 of
           (r, s) \<Rightarrow>
             (r, \<lparr>remote = s, trace = trace w @
                [GetLatestHeight,
                 FindUnspentRecords (startHeightUsed searchParameters) (JNumber h)
                   (privateKey (account this)) creditAmounts JUndefined nonces]\<rparr>))
      \<and> length (filter isQuery
           (issued w
              (snd (findCreditsRecords this creditAmounts unspent nonces searchParameters w))))
         = 1)"
proof (intro conjI impI allI)
  assume n: "\<not> lookupPerformed searchParameters"
  obtain r s where q: "findUnspentRecords (networkClient this)
       (startHeightUsed searchParameters) (endHeightGiven searchParameters)
       (privateKey (account this)) creditAmounts JUndefined nonces (remote w) = (r, s)"
    by (meson surj_pair)
  note run = findCreditsRecords_no_lookup [OF n q, of unspent]
  from run q
  show "findCreditsRecords this creditAmounts unspent nonces searchParameters w =
        (case findUnspentRecords (networkClient this) (startHeightUsed searchParameters)
                (endHeightGiven searchParameters) (privateKey (account this)) creditAmounts
                JUndefined nonces (remote w) of
           (r, s) \<Rightarrow>
             (r, \<lparr>remote = s, trace = trace w @
                [FindUnspentRecords (startHeightUsed searchParameters)
                   (endHeightGiven searchParameters) (privateKey (account this)) creditAmounts
                   JUndefined nonces]\<rparr>))"
    by simp
  from run
  show "length (filter isQuery
           (issued w
              (snd (findCreditsRecords this creditAmounts unspent nonces searchParameters w))))
         = 1"
    by (simp add: issued_def)
next
  fix h s1
  assume "lookupPerformed searchParameters
          \<and> getLatestHeight (networkClient this) (remote w) = (Resolved (Inr h), s1)"
  then have l: "lookupPerformed searchParameters"
    and g: "getLatestHeight (networkClient this) (remote w) = (Resolved (Inr h), s1)"
    by simp_all
  obtain r s where q: "findUnspentRecords (networkClient this)
       (startHeightUsed searchParameters) (JNumber h) (privateKey (account this))
       creditAmounts JUndefined nonces s1 = (r, s)"
    by (meson surj_pair)
  note run = findCreditsRecords_lookup_ok [OF l g q, of unspent]
  from run q
  show "findCreditsRecords this creditAmounts unspent nonces searchParameters w =
        (case findUnspentRecords (networkClient this) (startHeightUsed searchParameters)
                (JNumber h) (privateKey (account this)) creditAmounts JUndefined nonces s1 of
           (r, s) \<Rightarrow>
             (r, \<lparr>remote = s, trace = trace w @
                [GetLatestHeight,
                 FindUnspentRecords (startHeightUsed searchParameters) (JNumber h)
                   (privateKey (account this)) creditAmounts JUndefined nonces]\<rparr>))"
    by simp
  from run
  show "length (filter isQuery
           (issued w
              (snd (findCreditsRecords this creditAmounts unspent nonces searchParameters w))))
         = 1"
    by (simp add: issued_def)
qed

theorem findCreditsRecords_delegates_once_witness:
  "\<not> lookupPerformed None
   \<and> findCreditsRecords \<lparr>account = alice, networkClient = tipClient 100 [credits5000]\<rparr>
       [5000] True (Some []) None world0
     = (Resolved (Inr [credits5000]),
        \<lparr>remote = (),
         trace = [FindUnspentRecords (JNumber (Num 0)) (JNumber (Num 0)) ''APrivateKey1alice''
                    [5000] JUndefined (Some [])]\<rparr>)
   \<and> lookupPerformed (Some Map.empty)
   \<and> getLatestHeight (tipClient 100 [credits5000]) () = (Resolved (Inr (Num 100)), ())
   \<and> findCreditsRecords \<lparr>account = alice, networkClient = tipClient 100 [credits5000]\<rparr>
       [5000] True (Some []) (Some Map.empty) world0
     = (Resolved (Inr [credits5000]),
        \<lparr>remote = (),
         trace = [GetLatestHeight,
                  FindUnspentRecords (JNumber (Num 0)) (JNumber (Num 100)) ''APrivateKey1alice''
                    [5000] JUndefined (Some [])]\<rparr>)"
  using
    findCreditsRecords_delegates_once
      [of None "\<lparr>account = alice, networkClient = tipClient 100 [credits5000]\<rparr>" "[5000]"
          True "Some []" world0]
    findCreditsRecords_delegates_once
      [of "Some Map.empty" "\<lparr>account = alice, networkClient = tipClient 100 [credits5000]\<rparr>"
          "[5000]" True "Some []" world0]
  by (simp add: lookupPerformed_def startHeightUsed_def endHeightGiven_def getProp_def
      tipClient_def alice_def world0_def excluded_def credits5000_def)

subsection \<open>C5: the single search in terms of the batch search\<close>

text \<open>
  C5 as stated fails where the batch search has no result at all: when the chain-tip
  lookup returns an Error, \<^verbatim>\<open>findCreditsRecords([A], ...)\<close> rejects, the \<^verbatim>\<open>await\<close> of line
  213 throws, and \<^verbatim>\<open>findCreditsRecord\<close> rejects with the same string instead of
  returning the Error "Record not found".
\<close>

theorem findCreditsRecord_rejects_counterexample:
  "fst (findCreditsRecords \<lparr>account = alice, networkClient = downClient\<rparr> [5000] True
          (Some []) (Some Map.empty) world0)
     = Rejected (ThrownString ''Unable to get current block height'')
   \<and> fst (findCreditsRecord \<lparr>account = alice, networkClient = downClient\<rparr> 5000 True
          (Some []) (Some Map.empty) world0)
     = Rejected (ThrownString ''Unable to get current block height'')
   \<and> fst (findCreditsRecord \<lparr>account = alice, networkClient = downClient\<rparr> 5000 True
          (Some []) (Some Map.empty) world0)
     \<noteq> Resolved (Inl (Error ''Record not found''))"
  by (simp add: findCreditsRecord_def findCreditsRecords_def await_getLatestHeight_def
      downClient_def console_error_def world0_def getProp_def)

text \<open>
  C5, amended: from the same state and with the same arguments,
  \<^verbatim>\<open>findCreditsRecord(A, ...)\<close> returns the first element of what
  \<^verbatim>\<open>findCreditsRecords([A], ...)\<close> returns when that is a record list with at least one
  element, returns the Error "Record not found" when that is an empty list or an Error,
  and rejects with the same thrown value when \<^verbatim>\<open>findCreditsRecords([A], ...)\<close> rejects.
\<close>

theorem findCreditsRecord_from_findCreditsRecords:
  "fst (findCreditsRecord this creditAmount unspent nonces searchParameters w) =
     (case fst (findCreditsRecords this [creditAmount] unspent nonces searchParameters w) of
        Resolved (Inr (r # rs)) \<Rightarrow> Resolved (Inr r)
      | Resolved (Inr []) \<Rightarrow> Resolved (Inl (Error ''Record not found''))
      | Resolved (Inl e) \<Rightarrow> Resolved (Inl (Error ''Record not found''))
      | Rejected x \<Rightarrow> Rejected x)"
  by (cases "findCreditsRecords this [creditAmount] unspent nonces searchParameters w")
    (simp add: findCreditsRecord_unfold split: promise.splits sum.splits list.splits)

subsection \<open>C6: the arbitrary-record searches\<close>

text \<open>
  C6: on every input \<^verbatim>\<open>findRecord\<close> and \<^verbatim>\<open>findRecords\<close> fail with the error
  "Method not implemented."; they send nothing to the network client (the trace and the
  remote state are as before the call) and return no record.
\<close>

theorem findRecord_findRecords_not_implemented:
  "findRecord this unspent nonces searchParameters w =
     (Rejected (ThrownError (Error ''Method not implemented.'')), w)
   \<and> findRecords this unspent nonces searchParameters w =
     (Rejected (ThrownError (Error ''Method not implemented.'')), w)"
  by (simp add: findRecord_def findRecords_def)

subsection \<open>C7: a failed chain-tip lookup\<close>

text \<open>
  C7: when the chain-tip lookup is performed and the network client answers it with an
  Error, \<^verbatim>\<open>findCreditsRecords\<close> aborts with "Unable to get current block height"; no
  query is sent to the network client, and no record list is returned.
\<close>

theorem findCreditsRecords_height_failure_aborts:
  assumes "lookupPerformed searchParameters"
    and "getLatestHeight (networkClient this) (remote w) = (Resolved (Inl e), s)"
  shows "fst (findCreditsRecords this creditAmounts unspent nonces searchParameters w) =
           Rejected (ThrownString ''Unable to get current block height'')
         \<and> filter isQuery
             (issued w (snd (findCreditsRecords this creditAmounts unspent nonces searchParameters w)))
           = []
         \<and> remote (snd (findCreditsRecords this creditAmounts unspent nonces searchParameters w)) = s"
  using findCreditsRecords_lookup_error [OF assms]
  by (simp add: issued_def)

theorem findCreditsRecords_height_failure_aborts_witness:
  "lookupPerformed (Some Map.empty)
   \<and> getLatestHeight downClient () = (Resolved (Inl (Error ''fetch failed'')), ())
   \<and> findCreditsRecords \<lparr>account = alice, networkClient = downClient\<rparr> [5000] True (Some [])
        (Some Map.empty) world0
      = (Rejected (ThrownString ''Unable to get current block height''),
         \<lparr>remote = (), trace = [GetLatestHeight, ConsoleError ''Error getting latest height'']\<rparr>)"
proof -
  have l: "lookupPerformed (Some Map.empty)"
    by (simp add: lookupPerformed_def getProp_def)
  have g: "getLatestHeight (networkClient \<lparr>account = alice, networkClient = downClient\<rparr>)
             (remote world0) = (Resolved (Inl (Error ''fetch failed'')), ())"
    by (simp add: downClient_def)
  from findCreditsRecords_height_failure_aborts [OF l g, of "[5000]" True "Some []"]
  show ?thesis
    by (simp add: l downClient_def findCreditsRecords_def await_getLatestHeight_def
        console_error_def world0_def getProp_def)
qed

subsection \<open>C8: excluded nonces\<close>

text \<open>
  C8: if the network client never answers a query with a record whose nonce is among the
  nonces the query excludes, then no record that \<^verbatim>\<open>findCreditsRecords\<close> or
  \<^verbatim>\<open>findCreditsRecord\<close> returns has a nonce among the caller's nonces.
\<close>

theorem results_disjoint_from_nonces:
  assumes honest: "\<And>a b k am f ns s rs s'.
      findUnspentRecords (networkClient this) a b k am f ns s = (Resolved (Inr rs), s')
        \<Longrightarrow> nonce ` set rs \<inter> excluded ns = {}"
  shows "(\<forall>rs. fst (findCreditsRecords this creditAmounts unspent nonces searchParameters w)
              = Resolved (Inr rs) \<longrightarrow> nonce ` set rs \<inter> excluded nonces = {})
         \<and> (\<forall>r. fst (findCreditsRecord this creditAmount unspent nonces searchParameters w)
              = Resolved (Inr r) \<longrightarrow> nonce r \<notin> excluded nonces)"
proof -
  have batch: "nonce ` set rs \<inter> excluded nonces = {}"
    if "fst (findCreditsRecords this amounts unspent nonces searchParameters w)
          = Resolved (Inr rs)" for amounts rs
    using findCreditsRecords_resolved_by_client [OF that] honest by blast
  have single: "nonce r \<notin> excluded nonces"
    if f: "fst (findCreditsRecord this creditAmount unspent nonces searchParameters w)
          = Resolved (Inr r)" for r
  proof -
    from f obtain rs where
      "fst (findCreditsRecords this [creditAmount] unspent nonces searchParameters w)
         = Resolved (Inr (r # rs))"
      by (cases "findCreditsRecords this [creditAmount] unspent nonces searchParameters w")
        (auto simp: findCreditsRecord_unfold split: promise.splits sum.splits list.splits)
    from batch [OF this] show ?thesis by auto
  qed
  from batch single show ?thesis by blast
qed

theorem results_disjoint_from_nonces_witness:
  "fst (findCreditsRecords
        \<lparr>account = alice,
         networkClient = tipClient 100 [credits5000, \<lparr>nonce = ''nonce2'', microcredits = 5000\<rparr>]\<rparr>
        [5000] True (Some [''nonce1'']) None world0)
     = Resolved (Inr [\<lparr>nonce = ''nonce2'', microcredits = 5000\<rparr>])
   \<and> nonce ` set [\<lparr>nonce = ''nonce2'', microcredits = 5000\<rparr>] \<inter> excluded (Some [''nonce1'']) = {}
   \<and> fst (findCreditsRecord
        \<lparr>account = alice,
         networkClient = tipClient 100 [credits5000, \<lparr>nonce = ''nonce2'', microcredits = 5000\<rparr>]\<rparr>
        5000 True (Some [''nonce1'']) None world0)
     = Resolved (Inr \<lparr>nonce = ''nonce2'', microcredits = 5000\<rparr>)
   \<and> ''nonce2'' \<notin> excluded (Some [''nonce1''])"
proof -
  have honest: "nonce ` set rs \<inter> excluded ns = {}"
    if "findUnspentRecords
          (networkClient \<lparr>account = alice,
             networkClient = tipClient 100 [credits5000, \<lparr>nonce = ''nonce2'', microcredits = 5000\<rparr>]\<rparr>)
          a b k am f ns s = (Resolved (Inr rs), s')" for a b k am f ns s rs s'
    using that by (auto simp: tipClient_def split: if_splits)
  have b: "fst (findCreditsRecords
        \<lparr>account = alice,
         networkClient = tipClient 100 [credits5000, \<lparr>nonce = ''nonce2'', microcredits = 5000\<rparr>]\<rparr>
        [5000] True (Some [''nonce1'']) None world0)
     = Resolved (Inr [\<lparr>nonce = ''nonce2'', microcredits = 5000\<rparr>])"
    by (simp add: findCreditsRecords_def await_findUnspentRecords_def tipClient_def
        world0_def excluded_def credits5000_def)
  have s: "fst (findCreditsRecord
        \<lparr>account = alice,
         networkClient = tipClient 100 [credits5000, \<lparr>nonce = ''nonce2'', microcredits = 5000\<rparr>]\<rparr>
        5000 True (Some [''nonce1'']) None world0)
     = Resolved (Inr \<lparr>nonce = ''nonce2'', microcredits = 5000\<rparr>)"
    by (simp add: findCreditsRecord_def findCreditsRecords_def await_findUnspentRecords_def
        tipClient_def world0_def excluded_def credits5000_def)
  from results_disjoint_from_nonces [OF honest, where creditAmounts = "[5000]"
      and unspent = True and nonces = "Some [''nonce1'']" and searchParameters = None
      and w = world0 and creditAmount = 5000] b s
  show ?thesis
    by (simp add: excluded_def)
qed

subsection \<open>C9: replacing the account\<close>



subsection \<open>C10: the unspent flag\<close>

text \<open>
  C10: two calls of \<^verbatim>\<open>findCreditsRecords\<close>, or of \<^verbatim>\<open>findCreditsRecord\<close>, that differ
  only in the \<^verbatim>\<open>unspent\<close> flag give the same result, the same requests to the network
  client and the same remote state.
\<close>

theorem unspent_flag_ignored:
  "findCreditsRecords this creditAmounts unspent nonces searchParameters w =
     findCreditsRecords this creditAmounts unspent' nonces searchParameters w
   \<and> findCreditsRecord this creditAmount unspent nonces searchParameters w =
     findCreditsRecord this creditAmount unspent' nonces searchParameters w"
  by (simp add: findCreditsRecords_def findCreditsRecord_def)

end
